theory Spec2Isabelle
  imports Main
begin

section \<open>JavaScript values\<close>

text \<open>
  The values that cross the program's boundaries (parsed JSON bodies, optional
  parameters, job fields) are JavaScript values. Numbers are kept as integers: the
  program only tests them for truthiness and copies them.
  An object is its list of (key, value) pairs with distinct keys.
\<close>

datatype jsval =
    JUndefined
  | JNull
  | JBool bool
  | JNum int
  | JStr string
  | JArr "jsval list"
  | JObj "(string \<times> jsval) list"

text \<open>JavaScript's ToBoolean, as used by \<^verbatim>\<open>if (x)\<close>, \<^verbatim>\<open>!x\<close> and \<^verbatim>\<open>a && b\<close>.\<close>

fun truthy :: "jsval \<Rightarrow> bool" where
  "truthy JUndefined = False"
| "truthy JNull = False"
| "truthy (JBool b) = b"
| "truthy (JNum n) = (n \<noteq> 0)"
| "truthy (JStr s) = (s \<noteq> [])"
| "truthy (JArr xs) = True"
| "truthy (JObj kvs) = True"

text \<open>
  Errors thrown in the program. \<^verbatim>\<open>createError(message, status, code)\<close> of the
  errors middleware builds an error carrying an HTTP status and a machine code;
  \<^verbatim>\<open>new Error(message)\<close> is a plain error; a \<^verbatim>\<open>TypeError\<close> is what the engine
  raises when a property of \<^verbatim>\<open>undefined\<close> or \<^verbatim>\<open>null\<close> is read.
\<close>

datatype js_error =
    PlainError string
  | TypeError string
  | HttpError string nat string

fun message :: "js_error \<Rightarrow> string" where
  "message (PlainError m) = m"
| "message (TypeError m) = m"
| "message (HttpError m st c) = m"

section \<open>The job record and the Job Store\<close>

datatype job_status = Pending | Done | Failed

text \<open>
  The fields of a job record are those the route handlers of
  \<^verbatim>\<open>src/routes/jobs.js\<close> read. \<open>Pending\<close>, \<open>Done\<close> and \<open>Failed\<close> stand for
  the status strings \<^verbatim>\<open>'pending'\<close>, \<^verbatim>\<open>'done'\<close> and \<^verbatim>\<open>'error'\<close>.
\<close>

record job =
  status :: job_status
  filenamePdf :: string
  createdAt :: nat
  updatedAt :: nat
  executionId :: jsval
  executionStatus :: jsval
  executionMessage :: jsval
  executionMode :: jsval
  webhookUrl :: jsval
  presignedUrl :: jsval
  r2Key :: jsval
  error :: jsval

type_synonym jobStore = "string \<rightharpoonup> job"

record executionRecord =
  er_executionId :: jsval
  er_executionStatus :: jsval
  er_executionMessage :: jsval
  er_webhookUrl :: jsval
  er_executionMode :: jsval

text \<open>What a store mutation reports back; none of the three is an exception.\<close>

datatype outcome = Applied | IgnoredTerminal | IgnoredAbsent

definition isTerminal :: "job_status \<Rightarrow> bool" where
  "isTerminal s = (s = Done \<or> s = Failed)"

text \<open>
  Modelled from the spec: \<^verbatim>\<open>services/jobStore.js\<close> is not among the sources; only its
  callers are. \<^verbatim>\<open>createJob(id, sourceFilename)\<close> fails if the id already exists and
  otherwise initialises \<^verbatim>\<open>status = pending\<close> and both timestamps to now. (The text of
  the failure's message is not given by the spec; nothing below depends on it.)
\<close>

definition createJob :: "jobStore \<Rightarrow> string \<Rightarrow> string \<Rightarrow> nat \<Rightarrow> js_error + jobStore" where
  "createJob st jid fname now =
     (case st jid of
        Some j \<Rightarrow> Inl (PlainError ''Job already exists'')
      | None \<Rightarrow> Inr (st(jid \<mapsto>
          \<lparr> status = Pending, filenamePdf = fname, createdAt = now, updatedAt = now,
            executionId = JUndefined, executionStatus = JUndefined,
            executionMessage = JUndefined, executionMode = JUndefined,
            webhookUrl = JUndefined, presignedUrl = JUndefined,
            r2Key = JUndefined, error = JUndefined \<rparr>)))"

text \<open>
  Modelled from the spec: \<^verbatim>\<open>getJob(id)\<close> of the absent \<^verbatim>\<open>services/jobStore.js\<close> is a pure
  lookup with no side effects.
\<close>

definition getJob :: "jobStore \<Rightarrow> string \<Rightarrow> job option" where
  "getJob st jid = st jid"

text \<open>
  Modelled from the spec: \<^verbatim>\<open>updateExecutionDetails(id, executionRecord)\<close> of the absent
  \<^verbatim>\<open>services/jobStore.js\<close> attaches the execution record to an existing job and is
  ignored when the job is absent or already terminal.
\<close>

definition updateExecutionDetails ::
  "jobStore \<Rightarrow> string \<Rightarrow> executionRecord \<Rightarrow> nat \<Rightarrow> jobStore \<times> outcome" where
  "updateExecutionDetails st jid r now =
     (case st jid of
        None \<Rightarrow> (st, IgnoredAbsent)
      | Some j \<Rightarrow>
          if status j = Pending
          then (st(jid \<mapsto> j\<lparr> executionId := er_executionId r,
                              executionStatus := er_executionStatus r,
                              executionMessage := er_executionMessage r,
                              webhookUrl := er_webhookUrl r,
                              executionMode := er_executionMode r,
                              updatedAt := now \<rparr>), Applied)
          else (st, IgnoredTerminal))"

text \<open>
  Modelled from the spec: \<^verbatim>\<open>completeJob(id, resultRef)\<close> of the absent
  \<^verbatim>\<open>services/jobStore.js\<close> transitions \<^verbatim>\<open>pending \<rightarrow> done\<close>, sets the result reference
  and refreshes \<^verbatim>\<open>updatedAt\<close>; it is ignored if the job is already terminal or absent.
\<close>

definition completeJob :: "jobStore \<Rightarrow> string \<Rightarrow> jsval \<Rightarrow> nat \<Rightarrow> jobStore \<times> outcome" where
  "completeJob st jid resultRef now =
     (case st jid of
        None \<Rightarrow> (st, IgnoredAbsent)
      | Some j \<Rightarrow>
          if status j = Pending
          then (st(jid \<mapsto> j\<lparr> status := Done, r2Key := resultRef, updatedAt := now \<rparr>), Applied)
          else (st, IgnoredTerminal))"

text \<open>
  Modelled from the spec: \<^verbatim>\<open>failJob(id, reason)\<close> of the absent \<^verbatim>\<open>services/jobStore.js\<close>
  transitions \<^verbatim>\<open>pending \<rightarrow> error\<close> and sets the error reason, with the same rule for
  terminal and absent jobs as completion.
\<close>

definition failJob :: "jobStore \<Rightarrow> string \<Rightarrow> string \<Rightarrow> nat \<Rightarrow> jobStore \<times> outcome" where
  "failJob st jid reason now =
     (case st jid of
        None \<Rightarrow> (st, IgnoredAbsent)
      | Some j \<Rightarrow>
          if status j = Pending
          then (st(jid \<mapsto> j\<lparr> status := Failed, error := JStr reason, updatedAt := now \<rparr>), Applied)
          else (st, IgnoredTerminal))"

text \<open>
  Modelled from the spec: \<^verbatim>\<open>updateJob(id, partialFields)\<close> of the absent
  \<^verbatim>\<open>services/jobStore.js\<close> is restricted to non-status fields. The only partial field any
  caller under the sources passes is \<^verbatim>\<open>presignedUrl\<close>.
\<close>

definition updateJob :: "jobStore \<Rightarrow> string \<Rightarrow> jsval \<Rightarrow> nat \<Rightarrow> jobStore" where
  "updateJob st jid url now =
     (case st jid of
        None \<Rightarrow> st
      | Some j \<Rightarrow> st(jid \<mapsto> j\<lparr> presignedUrl := url, updatedAt := now \<rparr>))"

text \<open>A callback sequence: each call is a completion or a failure for some job id.\<close>

datatype store_call = CompleteJob string jsval nat | FailJob string string nat

fun applyCall :: "jobStore \<Rightarrow> store_call \<Rightarrow> jobStore" where
  "applyCall st (CompleteJob jid ref now) = fst (completeJob st jid ref now)"
| "applyCall st (FailJob jid reason now) = fst (failJob st jid reason now)"

fun applyCalls :: "jobStore \<Rightarrow> store_call list \<Rightarrow> jobStore" where
  "applyCalls st [] = st"
| "applyCalls st (c # cs) = applyCalls (applyCall st c) cs"

text \<open>The transitions the state machine allows in one step (staying put included).\<close>

definition allowedStep :: "job_status \<Rightarrow> job_status \<Rightarrow> bool" where
  "allowedStep s s' = (s' = s \<or> (s = Pending \<and> (s' = Done \<or> s' = Failed)))"

section \<open>File names\<close>

text \<open>
  Case-insensitive matching of an ASCII suffix, as the regular expression
  \<^verbatim>\<open>/\.pdf$/i\<close> does: the extension is matched at the very end of the name and
  replaced by \<^verbatim>\<open>.csv\<close>; a name that does not match is returned as it is.
\<close>

definition toLowerAscii :: "char \<Rightarrow> char" where
  "toLowerAscii c =
     (case map_of (zip ''ABCDEFGHIJKLMNOPQRSTUVWXYZ'' ''abcdefghijklmnopqrstuvwxyz'') c of
        Some l \<Rightarrow> l
      | None \<Rightarrow> c)"

definition endsWithCI :: "string \<Rightarrow> string \<Rightarrow> bool" where
  "endsWithCI s suf =
     (length suf \<le> length s \<and>
      map toLowerAscii (drop (length s - length suf) s) = map toLowerAscii suf)"

definition replaceExt :: "string list \<Rightarrow> string \<Rightarrow> string" where
  "replaceExt exts name =
     (case filter (\<lambda>e. endsWithCI name (CHR ''.'' # e)) exts of
        [] \<Rightarrow> name
      | e # es \<Rightarrow> take (length name - Suc (length e)) name @ ''.csv'')"

section \<open>The world the handlers run in\<close>

text \<open>
  Effects are recorded in the order the code performs them: a Job Store lookup, an
  attempt to remove a file, a call to the storage collaborator, and the
  \<^verbatim>\<open>console.warn\<close> / \<^verbatim>\<open>console.error\<close> lines (\<^verbatim>\<open>console.log\<close> lines are left out).
  A logged text is the byte sequence written, in UTF-8: the two pictographs that open the
  handlers' messages are the warning sign (U+26A0 U+FE0F) and the cross mark (U+274C).
\<close>

definition warningSign :: string where
  "warningSign = [CHR 0xE2, CHR 0x9A, CHR 0xA0, CHR 0xEF, CHR 0xB8, CHR 0x8F]"

definition crossMark :: string where
  "crossMark = [CHR 0xE2, CHR 0x9D, CHR 0x8C]"

datatype event =
    EvGetJob string
  | EvUnlink string
  | EvGenerateDownloadUrl string
  | EvConsoleWarn string
  | EvConsoleError string

text \<open>
  The world holds the Job Store, the temporary files on disk and the events so far.
  \<open>unlinkThrows\<close> is the file system's answer to a removal: the error that
  \<^verbatim>\<open>fs.unlinkSync(path)\<close> throws for that path (a missing file, a refused permission,
  whatever the cause), or \<open>None\<close> when the removal succeeds. The error and the text of
  its message are Node's, not the program's.
\<close>

record world =
  jobs :: jobStore
  tmpFiles :: "string set"
  unlinkThrows :: "string \<Rightarrow> js_error option"
  events :: "event list"

definition emit :: "event \<Rightarrow> world \<Rightarrow> world" where
  "emit e w = w\<lparr> events := events w @ [e] \<rparr>"

text \<open>
  \<^verbatim>\<open>fs.unlinkSync(path)\<close>: the attempt is recorded; it removes the file, or throws the
  error the file system answers with.
\<close>

definition unlinkSync :: "string \<Rightarrow> world \<Rightarrow> js_error option \<times> world" where
  "unlinkSync p w =
     (let w1 = emit (EvUnlink p) w in
      case unlinkThrows w1 p of
        None \<Rightarrow> (None, w1\<lparr> tmpFiles := tmpFiles w1 - {p} \<rparr>)
      | Some err \<Rightarrow> (Some err, w1))"

text \<open>
  The cleanup block of the upload handler,
  \<^verbatim>\<open>try { fs.unlinkSync(filePath) } catch (cleanupError) { console.warn(...) }\<close>;
  the two occurrences differ in the warning's prefix only; the warning ends with
  \<^verbatim>\<open>cleanupError.message\<close>.
\<close>

definition cleanupWarning :: string where
  "cleanupWarning = warningSign @ ''  Failed to cleanup temp file: ''"

definition cleanupWarningAfterError :: string where
  "cleanupWarningAfterError = warningSign @ ''  Failed to cleanup temp file after error: ''"

definition cleanupTemp :: "string \<Rightarrow> string \<Rightarrow> world \<Rightarrow> world" where
  "cleanupTemp prefix p w =
     (case unlinkSync p w of
        (None, w1) \<Rightarrow> w1
      | (Some cleanupError, w1) \<Rightarrow> emit (EvConsoleWarn (prefix @ message cleanupError)) w1)"

section \<open>The upload route\<close>

text \<open>
  The Workflow Forwarder, \<^verbatim>\<open>n8nClient.forwardToN8n\<close>, is a collaborator the route imports.
  Its module (\<^verbatim>\<open>services/n8nClient\<close>) declares \<^verbatim>\<open>const fileType\<close> twice in one block
  and is refused by the engine when it is loaded, so the function has no run-time
  behaviour of its own to embed; the handler is stated for any forwarder. Seen from the
  handler, a forwarder takes the object \<^verbatim>\<open>{ filePath, originalName, jobId }\<close> and either
  throws or resolves with an object of which the handler reads five properties (a
  property the object lacks reads as \<^verbatim>\<open>undefined\<close>).
\<close>

record forwardParams =
  fp_filePath :: string
  fp_originalName :: string
  fp_jobId :: string

record n8nAck =
  nr_executionId :: jsval
  nr_executionStatus :: jsval
  nr_message :: jsval
  nr_webhookUrl :: jsval
  nr_executionMode :: jsval

record uploadedFile =
  uf_originalname :: string
  uf_path :: string
  uf_size :: nat

record uploadExecution =
  ue_id :: jsval
  ue_status :: jsval
  ue_message :: jsval
  ue_mode :: jsval

record uploadResponse =
  ur_jobId :: string
  ur_message :: string
  ur_filename :: string
  ur_execution :: "uploadExecution option"

text \<open>
  The \<^verbatim>\<open>try\<close> block of the POST handler. \<open>forward\<close> is the imported
  \<^verbatim>\<open>n8nClient.forwardToN8n\<close>. \<open>t0\<close> is the time of the job's creation, \<open>t1\<close> the
  time after the forward call has returned.
\<close>

definition uploadTry ::
  "(forwardParams \<Rightarrow> world \<Rightarrow> (js_error + n8nAck) \<times> world) \<Rightarrow>
   nat \<Rightarrow> nat \<Rightarrow> uploadedFile \<Rightarrow> string \<Rightarrow> world \<Rightarrow> (js_error + nat \<times> uploadResponse) \<times> world" where
  "uploadTry forward t0 t1 f jobId w =
     (case createJob (jobs w) jobId (uf_originalname f) t0 of
        Inl e \<Rightarrow> (Inl e, w)
      | Inr st \<Rightarrow>
          (case forward
                  \<lparr> fp_filePath = uf_path f, fp_originalName = uf_originalname f,
                    fp_jobId = jobId \<rparr>
                  (w\<lparr> jobs := st \<rparr>) of
             (Inl e, w2) \<Rightarrow> (Inl e, w2)
           | (Inr n8nResponse, w2) \<Rightarrow>
               (let w3 =
                      (if truthy (nr_executionId n8nResponse)
                       then w2\<lparr> jobs := fst (updateExecutionDetails (jobs w2) jobId
                                  \<lparr> er_executionId = nr_executionId n8nResponse,
                                    er_executionStatus = nr_executionStatus n8nResponse,
                                    er_executionMessage = nr_message n8nResponse,
                                    er_webhookUrl = nr_webhookUrl n8nResponse,
                                    er_executionMode = nr_executionMode n8nResponse \<rparr> t1) \<rparr>
                       else w2);
                    w4 = cleanupTemp cleanupWarning (uf_path f) w3;
                    response =
                      \<lparr> ur_jobId = jobId,
                        ur_message = ''PDF uploaded and processing started'',
                        ur_filename = uf_originalname f,
                        ur_execution =
                          (if truthy (nr_executionId n8nResponse)
                           then Some \<lparr> ue_id = nr_executionId n8nResponse,
                                       ue_status = nr_executionStatus n8nResponse,
                                       ue_message = nr_message n8nResponse,
                                       ue_mode = nr_executionMode n8nResponse \<rparr>
                           else None) \<rparr>
                in (Inr (201, response), w4))))"

text \<open>
  The POST handler: \<^verbatim>\<open>req.file\<close> may be missing; \<open>jobId\<close> is what
  \<^verbatim>\<open>generateJobId()\<close> returned. The \<^verbatim>\<open>catch\<close> block removes the temporary file, marks
  the job failed with the error's message (when \<open>jobId\<close> is truthy) and throws the
  error again.
\<close>

definition uploadHandler ::
  "(forwardParams \<Rightarrow> world \<Rightarrow> (js_error + n8nAck) \<times> world) \<Rightarrow>
   nat \<Rightarrow> nat \<Rightarrow> uploadedFile option \<Rightarrow> string \<Rightarrow> world \<Rightarrow> (js_error + nat \<times> uploadResponse) \<times> world" where
  "uploadHandler forward t0 t1 reqFile jobId w =
     (case reqFile of
        None \<Rightarrow> (Inl (HttpError ''No file uploaded'' 400 ''NO_FILE''), w)
      | Some f \<Rightarrow>
          (case uploadTry forward t0 t1 f jobId w of
             (Inr r, w1) \<Rightarrow> (Inr r, w1)
           | (Inl e, w1) \<Rightarrow>
               (let w2 = cleanupTemp cleanupWarningAfterError (uf_path f) w1;
                    w3 = (if jobId \<noteq> []
                          then w2\<lparr> jobs := fst (failJob (jobs w2) jobId (message e) t1) \<rparr>
                          else w2)
                in (Inl e, w3))))"

section \<open>The per-job read endpoints\<close>

record executionView =
  ev_id :: jsval
  ev_status :: jsval
  ev_message :: jsval
  ev_mode :: jsval
  ev_webhookUrl :: jsval

record statusView =
  sv_jobId :: string
  sv_status :: job_status
  sv_ready :: bool
  sv_filename :: string
  sv_createdAt :: nat
  sv_updatedAt :: nat
  sv_execution :: "executionView option"
  sv_downloadUrl :: "jsval option"
  sv_error :: "jsval option"

definition executionOf :: "job \<Rightarrow> executionView" where
  "executionOf j =
     \<lparr> ev_id = executionId j, ev_status = executionStatus j,
       ev_message = executionMessage j, ev_mode = executionMode j,
       ev_webhookUrl = webhookUrl j \<rparr>"

text \<open>
  \<^verbatim>\<open>GET /:jobId/status\<close>. \<open>isValidJobId\<close> is the syntactic check of
  \<^verbatim>\<open>utils/ids\<close>, a parameter here. An optional field of the response that is not
  set is \<open>None\<close>.
\<close>

definition statusHandler ::
  "(string \<Rightarrow> bool) \<Rightarrow> string \<Rightarrow> world \<Rightarrow> (js_error + statusView) \<times> world" where
  "statusHandler isValidJobId jobId w =
     (if \<not> isValidJobId jobId
      then (Inl (HttpError ''Invalid job ID format'' 400 ''INVALID_JOB_ID''), w)
      else
        (let w1 = emit (EvGetJob jobId) w in
         case getJob (jobs w1) jobId of
           None \<Rightarrow> (Inl (HttpError ''Job not found'' 404 ''JOB_NOT_FOUND''), w1)
         | Some j \<Rightarrow>
             (Inr \<lparr> sv_jobId = jobId,
                    sv_status = status j,
                    sv_ready = (status j = Done),
                    sv_filename = filenamePdf j,
                    sv_createdAt = createdAt j,
                    sv_updatedAt = updatedAt j,
                    sv_execution = (if truthy (executionId j) then Some (executionOf j) else None),
                    sv_downloadUrl =
                      (if status j = Done \<and> truthy (presignedUrl j)
                       then Some (presignedUrl j) else None),
                    sv_error =
                      (if status j = Failed \<and> truthy (error j) then Some (error j) else None) \<rparr>,
              w1)))"

record downloadView =
  dv_url :: string
  dv_filename :: string
  dv_expiresInSeconds :: nat

text \<open>
  \<^verbatim>\<open>GET /:jobId/download-url\<close>. \<open>generateDownloadUrl\<close> is the storage
  collaborator's call (\<^verbatim>\<open>mongoClient.generateDownloadUrl\<close>), a parameter here: it
  returns a URL or throws.
\<close>

definition downloadUrlHandler ::
  "(string \<Rightarrow> bool) \<Rightarrow> (string \<Rightarrow> js_error + string) \<Rightarrow> nat \<Rightarrow> string \<Rightarrow> world \<Rightarrow>
   (js_error + downloadView) \<times> world" where
  "downloadUrlHandler isValidJobId generateDownloadUrl now jobId w =
     (if \<not> isValidJobId jobId
      then (Inl (HttpError ''Invalid job ID format'' 400 ''INVALID_JOB_ID''), w)
      else
        (let w1 = emit (EvGetJob jobId) w in
         case getJob (jobs w1) jobId of
           None \<Rightarrow> (Inl (HttpError ''Job not found'' 404 ''JOB_NOT_FOUND''), w1)
         | Some j \<Rightarrow>
             if status j \<noteq> Done
             then (Inl (HttpError ''Job not completed yet'' 400 ''JOB_NOT_READY''), w1)
             else if \<not> truthy (r2Key j)
             then (Inl (HttpError ''CSV file not available'' 500 ''CSV_NOT_AVAILABLE''), w1)
             else
               (let w2 = emit (EvGenerateDownloadUrl jobId) w1 in
                case generateDownloadUrl jobId of
                  Inl e \<Rightarrow>
                    (Inl (HttpError ''Failed to generate download URL'' 500 ''DOWNLOAD_URL_ERROR''),
                     emit (EvConsoleError (crossMark @ '' Failed to generate download URL for job ''
                                            @ jobId @ '': '' @ message e)) w2)
                | Inr downloadUrl \<Rightarrow>
                    (Inr \<lparr> dv_url = downloadUrl,
                           dv_filename = replaceExt [''pdf''] (filenamePdf j),
                           dv_expiresInSeconds = 3600 \<rparr>,
                     w2\<lparr> jobs := updateJob (jobs w2) jobId (JStr downloadUrl) now \<rparr>))))"

record executionDetail =
  ed_jobId :: string
  ed_execution :: executionView
  ed_jobStatus :: job_status
  ed_createdAt :: nat
  ed_updatedAt :: nat

text \<open>\<^verbatim>\<open>GET /:jobId/execution\<close>.\<close>

definition executionHandler ::
  "(string \<Rightarrow> bool) \<Rightarrow> string \<Rightarrow> world \<Rightarrow> (js_error + executionDetail) \<times> world" where
  "executionHandler isValidJobId jobId w =
     (if \<not> isValidJobId jobId
      then (Inl (HttpError ''Invalid job ID format'' 400 ''INVALID_JOB_ID''), w)
      else
        (let w1 = emit (EvGetJob jobId) w in
         case getJob (jobs w1) jobId of
           None \<Rightarrow> (Inl (HttpError ''Job not found'' 404 ''JOB_NOT_FOUND''), w1)
         | Some j \<Rightarrow>
             if \<not> truthy (executionId j)
             then (Inl (HttpError ''No execution information available for this job'' 404
                          ''NO_EXECUTION_INFO''), w1)
             else
               (Inr \<lparr> ed_jobId = jobId, ed_execution = executionOf j, ed_jobStatus = status j,
                      ed_createdAt = createdAt j, ed_updatedAt = updatedAt j \<rparr>, w1)))"

section \<open>The callback limiter\<close>

text \<open>
  A request as the limiter sees it: the client address and the headers (names in
  lower case, as Node delivers them). \<^verbatim>\<open>req.headers[name]\<close> of a header that was not
  sent is \<^verbatim>\<open>undefined\<close>, here \<open>None\<close>; so is \<^verbatim>\<open>process.env.NAME\<close> of a variable
  that is not set.
\<close>

record request =
  rq_ip :: string
  rq_headers :: "(string \<times> string) list"

definition header :: "request \<Rightarrow> string \<Rightarrow> string option" where
  "header req name = map_of (rq_headers req) name"

type_synonym environment = "(string \<times> string) list"

definition env :: "environment \<Rightarrow> string \<Rightarrow> string option" where
  "env e name = map_of e name"

text \<open>The \<^verbatim>\<open>skip\<close> and \<^verbatim>\<open>keyGenerator\<close> options of \<^verbatim>\<open>callbackLimiter\<close>.\<close>

definition callbackSkip :: "environment \<Rightarrow> request \<Rightarrow> bool" where
  "callbackSkip e req =
     (let callbackSecret = header req ''x-callback-secret''
      in callbackSecret = env e ''CALLBACK_SECRET'')"

definition callbackKey :: "request \<Rightarrow> string" where
  "callbackKey req = rq_ip req @ ''-callback''"

definition callbackMax :: nat where
  "callbackMax = 100"

text \<open>
  What the rate-limit middleware does with these options inside one window: a request
  for which \<^verbatim>\<open>skip\<close> holds passes and is not counted; any other request adds one hit
  to its key's count and is refused with status 429 once the count exceeds \<^verbatim>\<open>max\<close>.
\<close>

datatype verdict = Passed | Refused nat string

definition callbackLimiter ::
  "environment \<Rightarrow> (string \<Rightarrow> nat) \<Rightarrow> request \<Rightarrow> verdict \<times> (string \<Rightarrow> nat)" where
  "callbackLimiter e hits req =
     (if callbackSkip e req then (Passed, hits)
      else
        (let k = callbackKey req; n = Suc (hits k)
         in (if callbackMax < n then Refused 429 ''CALLBACK_RATE_LIMIT_EXCEEDED'' else Passed,
             hits(k := n))))"

section \<open>Sample collaborators and inputs\<close>

text \<open>
  Concrete values for the parameters, used where a statement is evaluated on an
  explicit input: a job identifier check by length, a storage collaborator that answers
  and one that fails, a forwarder that acknowledges and one that throws, a file system
  that removes every file and one that finds none.
\<close>

definition idOfLength :: "nat \<Rightarrow> string \<Rightarrow> bool" where
  "idOfLength n s = (length s = n)"

definition localDownloadUrl :: "string \<Rightarrow> js_error + string" where
  "localDownloadUrl jobId = Inr (''/api/files/download/'' @ jobId)"

definition storageDown :: "string \<Rightarrow> js_error + string" where
  "storageDown jobId = Inl (PlainError ''storage unavailable'')"

definition ackingForwarder ::
  "n8nAck \<Rightarrow> forwardParams \<Rightarrow> world \<Rightarrow> (js_error + n8nAck) \<times> world" where
  "ackingForwarder a p w = (Inr a, w)"

definition failingForwarder ::
  "js_error \<Rightarrow> forwardParams \<Rightarrow> world \<Rightarrow> (js_error + n8nAck) \<times> world" where
  "failingForwarder e p w = (Inl e, w)"

definition ack0 :: n8nAck where
  "ack0 =
     \<lparr> nr_executionId = JStr ''E1'', nr_executionStatus = JStr ''running'',
       nr_message = JUndefined, nr_webhookUrl = JUndefined,
       nr_executionMode = JUndefined \<rparr>"

definition removesAll :: "string \<Rightarrow> js_error option" where
  "removesAll p = None"

definition findsNone :: "string \<Rightarrow> js_error option" where
  "findsNone p =
     Some (PlainError (''ENOENT: no such file or directory, unlink ''
                         @ [CHR 0x27] @ p @ [CHR 0x27]))"

definition request0 :: request where
  "request0 = \<lparr> rq_ip = ''203.0.113.7'', rq_headers = [] \<rparr>"

definition noHits :: "string \<Rightarrow> nat" where
  "noHits k = 0"

definition job0 :: job where
  "job0 =
     \<lparr> status = Pending, filenamePdf = ''report.pdf'', createdAt = 0, updatedAt = 0,
       executionId = JUndefined, executionStatus = JUndefined,
       executionMessage = JUndefined, executionMode = JUndefined,
       webhookUrl = JUndefined, presignedUrl = JUndefined,
       r2Key = JUndefined, error = JUndefined \<rparr>"

definition world0 :: world where
  "world0 =
     \<lparr> jobs = Map.empty, tmpFiles = {''tmp/upload1''}, unlinkThrows = removesAll,
       events = [] \<rparr>"

definition worldNoFile :: world where
  "worldNoFile = \<lparr> jobs = Map.empty, tmpFiles = {}, unlinkThrows = findsNone, events = [] \<rparr>"

definition file0 :: uploadedFile where
  "file0 = \<lparr> uf_originalname = ''report.pdf'', uf_path = ''tmp/upload1'', uf_size = 1024 \<rparr>"

section \<open>The Job Store state machine\<close>

lemma applyCall_step:
  assumes "st jid = Some j"
  shows "\<exists>j'. applyCall st c jid = Some j' \<and> allowedStep (status j) (status j')
           \<and> (isTerminal (status j) \<longrightarrow> j' = j)"
proof (cases c)
  case (CompleteJob k r t)
  with assms show ?thesis
    by (cases "status j")
       (auto simp: completeJob_def allowedStep_def isTerminal_def split: option.splits)
next
  case (FailJob k r t)
  with assms show ?thesis
    by (cases "status j")
       (auto simp: failJob_def allowedStep_def isTerminal_def split: option.splits)
qed

lemma applyCalls_snoc: "applyCalls st (cs @ [c]) = applyCall (applyCalls st cs) c"
  by (induction cs arbitrary: st) simp_all

lemma applyCalls_present:
  "st jid = Some j \<Longrightarrow> \<exists>j'. applyCalls st cs jid = Some j'"
proof (induction cs arbitrary: st j)
  case Nil
  then show ?case by simp
next
  case (Cons c cs)
  from applyCall_step [of st jid j c] Cons.prems
  obtain j1 where "applyCall st c jid = Some j1" by blast
  from Cons.IH [of "applyCall st c" j1] this show ?case by simp
qed

lemma applyCalls_terminal:
  "st jid = Some j \<Longrightarrow> isTerminal (status j) \<Longrightarrow> applyCalls st cs jid = Some j"
proof (induction cs arbitrary: st)
  case Nil
  then show ?case by simp
next
  case (Cons c cs)
  from applyCall_step [of st jid j c] Cons.prems
  have "applyCall st c jid = Some j" by auto
  from Cons.IH [of "applyCall st c"] this Cons.prems(2) show ?case by simp
qed

lemma completeJob_twice:
  "completeJob (fst (completeJob st jid r1 t1)) jid r2 t2 =
     (fst (completeJob st jid r1 t1),
      if st jid = None then IgnoredAbsent else IgnoredTerminal)"
  by (auto simp: completeJob_def split: option.splits)

text \<open>
  C1. For every job record and every sequence of \<^verbatim>\<open>completeJob\<close> / \<^verbatim>\<open>failJob\<close> calls
  (duplicates and every interleaving of racing callbacks included, since each call runs
  to its end before the next), each further call moves the job's status only from pending
  to done or from pending to error, or leaves it; a record in a terminal state is left
  exactly as it is by any sequence of calls; a second \<^verbatim>\<open>completeJob\<close>, with the same or
  another result reference, leaves the store as the first call left it and reports an
  ignored call, which is a returned value and not an exception.
\<close>

theorem job_status_monotonic:
  "(st jid = Some j \<longrightarrow>
      (\<exists>j1 j2. applyCalls st cs jid = Some j1 \<and> applyCalls st (cs @ [c]) jid = Some j2
         \<and> allowedStep (status j1) (status j2)
         \<and> (isTerminal (status j1) \<longrightarrow> j2 = j1)))
   \<and> (st jid = Some j \<and> isTerminal (status j) \<longrightarrow> applyCalls st cs jid = Some j)
   \<and> fst (completeJob (fst (completeJob st jid r1 t1)) jid r2 t2) = fst (completeJob st jid r1 t1)
   \<and> snd (completeJob (fst (completeJob st jid r1 t1)) jid r2 t2) \<noteq> Applied"
proof (intro conjI impI)
  assume a: "st jid = Some j"
  from applyCalls_present [of st jid j cs] a obtain j1 where j1: "applyCalls st cs jid = Some j1"
    by blast
  from applyCall_step [of "applyCalls st cs" jid j1 c] j1 obtain j2 where
    "applyCall (applyCalls st cs) c jid = Some j2" "allowedStep (status j1) (status j2)"
    "isTerminal (status j1) \<longrightarrow> j2 = j1" by blast
  with j1 show "\<exists>j1 j2. applyCalls st cs jid = Some j1 \<and> applyCalls st (cs @ [c]) jid = Some j2
         \<and> allowedStep (status j1) (status j2) \<and> (isTerminal (status j1) \<longrightarrow> j2 = j1)"
    by (simp add: applyCalls_snoc)
next
  assume "st jid = Some j \<and> isTerminal (status j)"
  then show "applyCalls st cs jid = Some j" by (simp add: applyCalls_terminal)
next
  show "fst (completeJob (fst (completeJob st jid r1 t1)) jid r2 t2) = fst (completeJob st jid r1 t1)"
    by (simp add: completeJob_twice)
next
  show "snd (completeJob (fst (completeJob st jid r1 t1)) jid r2 t2) \<noteq> Applied"
    by (simp add: completeJob_twice)
qed

theorem job_status_monotonic_witness:
  "applyCalls [''j1'' \<mapsto> job0\<lparr> status := Done, r2Key := JStr ''R1'', updatedAt := 1 \<rparr>]
      [CompleteJob ''j1'' (JStr ''R2'') 2, FailJob ''j1'' ''late failure'' 3] ''j1''
    = Some (job0\<lparr> status := Done, r2Key := JStr ''R1'', updatedAt := 1 \<rparr>)"
  using job_status_monotonic [of "[''j1'' \<mapsto> job0\<lparr> status := Done, r2Key := JStr ''R1'', updatedAt := 1 \<rparr>]"
      "''j1''" "job0\<lparr> status := Done, r2Key := JStr ''R1'', updatedAt := 1 \<rparr>"
      "[CompleteJob ''j1'' (JStr ''R2'') 2, FailJob ''j1'' ''late failure'' 3]"]
  by (simp add: isTerminal_def job0_def)

section \<open>The upload route\<close>

lemma cleanupTemp_jobs: "jobs (cleanupTemp prefix p w) = jobs w"
  by (simp add: cleanupTemp_def unlinkSync_def emit_def Let_def split: option.splits)

lemma cleanupTemp_events:
  "events (cleanupTemp prefix p w) =
     events w @ EvUnlink p #
       (case unlinkThrows w p of
          None \<Rightarrow> []
        | Some cleanupError \<Rightarrow> [EvConsoleWarn (prefix @ message cleanupError)])"
  by (simp add: cleanupTemp_def unlinkSync_def emit_def Let_def split: option.splits)

lemma uploadHandler_failure:
  assumes c: "createJob (jobs w) jobId (uf_originalname f) t0 = Inr st"
    and fw: "forward \<lparr> fp_filePath = uf_path f, fp_originalName = uf_originalname f,
                       fp_jobId = jobId \<rparr> (w\<lparr> jobs := st \<rparr>) = (Inl e, w2)"
  shows "uploadHandler forward t0 t1 (Some f) jobId w =
           (Inl e,
            if jobId \<noteq> []
            then (cleanupTemp cleanupWarningAfterError (uf_path f) w2)
                   \<lparr> jobs := fst (failJob (jobs w2) jobId (message e) t1) \<rparr>
            else cleanupTemp cleanupWarningAfterError (uf_path f) w2)"
  using c fw by (simp add: uploadHandler_def uploadTry_def Let_def cleanupTemp_jobs)

lemma uploadHandler_create_failure:
  assumes c: "createJob (jobs w) jobId (uf_originalname f) t0 = Inl e"
  shows "uploadHandler forward t0 t1 (Some f) jobId w =
           (Inl e,
            if jobId \<noteq> []
            then (cleanupTemp cleanupWarningAfterError (uf_path f) w)
                   \<lparr> jobs := fst (failJob (jobs w) jobId (message e) t1) \<rparr>
            else cleanupTemp cleanupWarningAfterError (uf_path f) w)"
  using c by (simp add: uploadHandler_def uploadTry_def Let_def cleanupTemp_jobs)

lemma uploadHandler_success:
  assumes c: "createJob (jobs w) jobId (uf_originalname f) t0 = Inr st"
    and fw: "forward \<lparr> fp_filePath = uf_path f, fp_originalName = uf_originalname f,
                       fp_jobId = jobId \<rparr> (w\<lparr> jobs := st \<rparr>) = (Inr a, w2)"
  shows "\<exists>r. uploadHandler forward t0 t1 (Some f) jobId w =
           (Inr (201, r),
            cleanupTemp cleanupWarning (uf_path f)
              (if truthy (nr_executionId a)
               then w2\<lparr> jobs := fst (updateExecutionDetails (jobs w2) jobId
                          \<lparr> er_executionId = nr_executionId a,
                            er_executionStatus = nr_executionStatus a,
                            er_executionMessage = nr_message a,
                            er_webhookUrl = nr_webhookUrl a,
                            er_executionMode = nr_executionMode a \<rparr> t1) \<rparr>
               else w2))"
  using c fw by (simp add: uploadHandler_def uploadTry_def Let_def)

lemma failJob_pending:
  "st jid = Some j \<Longrightarrow> status j = Pending \<Longrightarrow>
   fst (failJob st jid reason t) jid = Some (j\<lparr> status := Failed, error := JStr reason, updatedAt := t \<rparr>)"
  by (simp add: failJob_def)

text \<open>
  C4. If the forward step of an upload fails with an error, the upload handler throws
  that same error to the client, calls \<^verbatim>\<open>failJob(jobId, error.message)\<close>, so that a job
  still pending is marked failed with the message recorded, and attempts to remove the
  temporary file. Removal is attempted on every exit path: after a successful forward,
  after a failed forward, and after a failed \<^verbatim>\<open>createJob\<close>. When the removal itself
  throws, whatever the error, the only thing that happens is one \<^verbatim>\<open>console.warn\<close> line,
  the handler's own prefix followed by that error's message; the handler's result is
  the one it has when the removal succeeds.
\<close>

theorem upload_failure_marks_job_and_cleans_up:
  "(createJob (jobs w) jobId (uf_originalname f) t0 = Inr st \<and> jobId \<noteq> []
    \<and> forward \<lparr> fp_filePath = uf_path f, fp_originalName = uf_originalname f,
                 fp_jobId = jobId \<rparr> (w\<lparr> jobs := st \<rparr>) = (Inl e, w2) \<longrightarrow>
      (\<exists>w3. uploadHandler forward t0 t1 (Some f) jobId w = (Inl e, w3)
         \<and> jobs w3 = fst (failJob (jobs w2) jobId (message e) t1)
         \<and> (\<forall>j. jobs w2 jobId = Some j \<and> status j = Pending \<longrightarrow>
               jobs w3 jobId = Some (j\<lparr> status := Failed, error := JStr (message e), updatedAt := t1 \<rparr>))
         \<and> EvUnlink (uf_path f) \<in> set (events w3)
         \<and> (unlinkThrows w2 (uf_path f) = None \<longrightarrow>
               events w3 = events w2 @ [EvUnlink (uf_path f)])
         \<and> (\<forall>cleanupError. unlinkThrows w2 (uf_path f) = Some cleanupError \<longrightarrow>
               events w3 = events w2 @
                 [EvUnlink (uf_path f),
                  EvConsoleWarn (cleanupWarningAfterError @ message cleanupError)])))
   \<and> (createJob (jobs w) jobId (uf_originalname f) t0 = Inr st
       \<and> forward \<lparr> fp_filePath = uf_path f, fp_originalName = uf_originalname f,
                    fp_jobId = jobId \<rparr> (w\<lparr> jobs := st \<rparr>) = (Inr a, w2) \<longrightarrow>
      (\<exists>r w3. uploadHandler forward t0 t1 (Some f) jobId w = (Inr (201, r), w3)
         \<and> EvUnlink (uf_path f) \<in> set (events w3)
         \<and> (unlinkThrows w2 (uf_path f) = None \<longrightarrow>
               events w3 = events w2 @ [EvUnlink (uf_path f)])
         \<and> (\<forall>cleanupError. unlinkThrows w2 (uf_path f) = Some cleanupError \<longrightarrow>
               events w3 = events w2 @
                 [EvUnlink (uf_path f),
                  EvConsoleWarn (cleanupWarning @ message cleanupError)])))
   \<and> (createJob (jobs w) jobId (uf_originalname f) t0 = Inl e \<longrightarrow>
      (\<exists>w3. uploadHandler forward t0 t1 (Some f) jobId w = (Inl e, w3)
         \<and> EvUnlink (uf_path f) \<in> set (events w3)))"
proof (intro conjI impI)
  assume a: "createJob (jobs w) jobId (uf_originalname f) t0 = Inr st \<and> jobId \<noteq> []
    \<and> forward \<lparr> fp_filePath = uf_path f, fp_originalName = uf_originalname f,
                 fp_jobId = jobId \<rparr> (w\<lparr> jobs := st \<rparr>) = (Inl e, w2)"
  let ?w3 = "(cleanupTemp cleanupWarningAfterError (uf_path f) w2)
               \<lparr> jobs := fst (failJob (jobs w2) jobId (message e) t1) \<rparr>"
  from a uploadHandler_failure [of w jobId f t0 st forward e w2 t1]
  have r: "uploadHandler forward t0 t1 (Some f) jobId w = (Inl e, ?w3)" by simp
  have j: "jobs ?w3 = fst (failJob (jobs w2) jobId (message e) t1)" by simp
  have p: "\<forall>j. jobs w2 jobId = Some j \<and> status j = Pending \<longrightarrow>
               jobs ?w3 jobId = Some (j\<lparr> status := Failed, error := JStr (message e), updatedAt := t1 \<rparr>)"
    by (simp add: failJob_pending)
  have u: "EvUnlink (uf_path f) \<in> set (events ?w3)" by (simp add: cleanupTemp_events)
  have n: "unlinkThrows w2 (uf_path f) = None \<longrightarrow>
               events ?w3 = events w2 @ [EvUnlink (uf_path f)]"
    by (simp add: cleanupTemp_events)
  have c: "\<forall>cleanupError. unlinkThrows w2 (uf_path f) = Some cleanupError \<longrightarrow>
               events ?w3 = events w2 @
                 [EvUnlink (uf_path f),
                  EvConsoleWarn (cleanupWarningAfterError @ message cleanupError)]"
    by (simp add: cleanupTemp_events)
  from r j p u n c show "\<exists>w3. uploadHandler forward t0 t1 (Some f) jobId w = (Inl e, w3)
         \<and> jobs w3 = fst (failJob (jobs w2) jobId (message e) t1)
         \<and> (\<forall>j. jobs w2 jobId = Some j \<and> status j = Pending \<longrightarrow>
               jobs w3 jobId = Some (j\<lparr> status := Failed, error := JStr (message e), updatedAt := t1 \<rparr>))
         \<and> EvUnlink (uf_path f) \<in> set (events w3)
         \<and> (unlinkThrows w2 (uf_path f) = None \<longrightarrow>
               events w3 = events w2 @ [EvUnlink (uf_path f)])
         \<and> (\<forall>cleanupError. unlinkThrows w2 (uf_path f) = Some cleanupError \<longrightarrow>
               events w3 = events w2 @
                 [EvUnlink (uf_path f),
                  EvConsoleWarn (cleanupWarningAfterError @ message cleanupError)])"
    by (intro exI [of _ ?w3] conjI)
next
  assume a: "createJob (jobs w) jobId (uf_originalname f) t0 = Inr st
       \<and> forward \<lparr> fp_filePath = uf_path f, fp_originalName = uf_originalname f,
                    fp_jobId = jobId \<rparr> (w\<lparr> jobs := st \<rparr>) = (Inr a, w2)"
  let ?w = "if truthy (nr_executionId a)
               then w2\<lparr> jobs := fst (updateExecutionDetails (jobs w2) jobId
                          \<lparr> er_executionId = nr_executionId a,
                            er_executionStatus = nr_executionStatus a,
                            er_executionMessage = nr_message a,
                            er_webhookUrl = nr_webhookUrl a,
                            er_executionMode = nr_executionMode a \<rparr> t1) \<rparr>
               else w2"
  let ?w3 = "cleanupTemp cleanupWarning (uf_path f) ?w"
  from a uploadHandler_success [of w jobId f t0 st forward a w2 t1]
  obtain r where r: "uploadHandler forward t0 t1 (Some f) jobId w = (Inr (201, r), ?w3)" by blast
  have t: "unlinkThrows ?w = unlinkThrows w2" "events ?w = events w2" by simp_all
  have u: "EvUnlink (uf_path f) \<in> set (events ?w3)" by (simp add: cleanupTemp_events)
  have n: "unlinkThrows w2 (uf_path f) = None \<longrightarrow>
               events ?w3 = events w2 @ [EvUnlink (uf_path f)]"
    using t by (simp add: cleanupTemp_events)
  have c: "\<forall>cleanupError. unlinkThrows w2 (uf_path f) = Some cleanupError \<longrightarrow>
               events ?w3 = events w2 @
                 [EvUnlink (uf_path f), EvConsoleWarn (cleanupWarning @ message cleanupError)]"
    using t by (simp add: cleanupTemp_events)
  from r u n c show "\<exists>r w3. uploadHandler forward t0 t1 (Some f) jobId w = (Inr (201, r), w3)
         \<and> EvUnlink (uf_path f) \<in> set (events w3)
         \<and> (unlinkThrows w2 (uf_path f) = None \<longrightarrow>
               events w3 = events w2 @ [EvUnlink (uf_path f)])
         \<and> (\<forall>cleanupError. unlinkThrows w2 (uf_path f) = Some cleanupError \<longrightarrow>
               events w3 = events w2 @
                 [EvUnlink (uf_path f),
                  EvConsoleWarn (cleanupWarning @ message cleanupError)])"
    by (intro exI [of _ r] exI [of _ ?w3] conjI)
next
  assume a: "createJob (jobs w) jobId (uf_originalname f) t0 = Inl e"
  from uploadHandler_create_failure [of w jobId f t0 e forward t1] a
  show "\<exists>w3. uploadHandler forward t0 t1 (Some f) jobId w = (Inl e, w3)
         \<and> EvUnlink (uf_path f) \<in> set (events w3)"
    by (cases "jobId = []") (simp_all add: cleanupTemp_events)
qed

text \<open>
  C4, at an upload whose forward is refused while the temporary file is already gone
  (the removal throws Node's \<^verbatim>\<open>ENOENT\<close> error), and at one whose forward is acknowledged
  and whose file is removed.
\<close>

theorem upload_failure_marks_job_and_cleans_up_witness:
  "fst (uploadHandler (failingForwarder (PlainError ''n8n forwarding failed: connect ECONNREFUSED''))
          1 2 (Some file0) ''job000000001'' worldNoFile)
     = Inl (PlainError ''n8n forwarding failed: connect ECONNREFUSED'')
   \<and> jobs (snd (uploadHandler (failingForwarder (PlainError ''n8n forwarding failed: connect ECONNREFUSED''))
          1 2 (Some file0) ''job000000001'' worldNoFile)) ''job000000001''
     = Some (job0\<lparr> createdAt := 1, status := Failed,
                   error := JStr ''n8n forwarding failed: connect ECONNREFUSED'',
                   updatedAt := 2 \<rparr>)
   \<and> events (snd (uploadHandler (failingForwarder (PlainError ''n8n forwarding failed: connect ECONNREFUSED''))
          1 2 (Some file0) ''job000000001'' worldNoFile))
     = [EvUnlink ''tmp/upload1'',
        EvConsoleWarn (warningSign @ ''  Failed to cleanup temp file after error: ''
          @ ''ENOENT: no such file or directory, unlink '' @ [CHR 0x27] @ ''tmp/upload1'' @ [CHR 0x27])]
   \<and> fst (uploadHandler (ackingForwarder ack0) 1 2 (Some file0) ''job000000001'' world0)
     = Inr (201,
            \<lparr> ur_jobId = ''job000000001'', ur_message = ''PDF uploaded and processing started'',
              ur_filename = ''report.pdf'',
              ur_execution = Some \<lparr> ue_id = JStr ''E1'', ue_status = JStr ''running'',
                                    ue_message = JUndefined, ue_mode = JUndefined \<rparr> \<rparr>)
   \<and> events (snd (uploadHandler (ackingForwarder ack0) 1 2 (Some file0) ''job000000001'' world0))
     = [EvUnlink ''tmp/upload1'']"
  using upload_failure_marks_job_and_cleans_up
          [of worldNoFile "''job000000001''" file0 1
              "[''job000000001'' \<mapsto> job0\<lparr> createdAt := 1, updatedAt := 1 \<rparr>]"
              "failingForwarder (PlainError ''n8n forwarding failed: connect ECONNREFUSED'')"
              "PlainError ''n8n forwarding failed: connect ECONNREFUSED''"
              "worldNoFile\<lparr> jobs := [''job000000001'' \<mapsto> job0\<lparr> createdAt := 1, updatedAt := 1 \<rparr>] \<rparr>"
              2 ack0]
        upload_failure_marks_job_and_cleans_up
          [of world0 "''job000000001''" file0 1
              "[''job000000001'' \<mapsto> job0\<lparr> createdAt := 1, updatedAt := 1 \<rparr>]"
              "ackingForwarder ack0"
              "PlainError ''unused''"
              "world0\<lparr> jobs := [''job000000001'' \<mapsto> job0\<lparr> createdAt := 1, updatedAt := 1 \<rparr>] \<rparr>"
              2 ack0]
  by (auto simp: failingForwarder_def ackingForwarder_def world0_def worldNoFile_def file0_def
        job0_def createJob_def failJob_def removesAll_def findsNone_def
        cleanupWarningAfterError_def ack0_def uploadHandler_def uploadTry_def Let_def
        cleanupTemp_def unlinkSync_def emit_def updateExecutionDetails_def)

section \<open>The read endpoints\<close>

lemma replaceExt_pdf:
  "replaceExt [''pdf''] (base @ ''.pdf'') = base @ ''.csv''"
  by (simp add: replaceExt_def endsWithCI_def)

lemma replaceExt_PDF:
  "replaceExt [''pdf''] (base @ ''.PDF'') = base @ ''.csv''"
  by (simp add: replaceExt_def endsWithCI_def toLowerAscii_def)

lemma replaceExt_other:
  "\<not> endsWithCI name ''.pdf'' \<Longrightarrow> replaceExt [''pdf''] name = name"
  by (simp add: replaceExt_def)

text \<open>
  C7 (as amended). For an existing job that is not done the download-URL view fails with
  400 \<^verbatim>\<open>JOB_NOT_READY\<close> and leaves the store unchanged. For a done job whose result
  reference (\<^verbatim>\<open>r2Key\<close>) is present, it asks the storage collaborator for a fresh
  reference and, when one is returned, persists it onto the job through \<^verbatim>\<open>updateJob\<close> as
  \<^verbatim>\<open>presignedUrl\<close> (the status is not touched) and returns the URL, the file name and
  \<^verbatim>\<open>expiresInSeconds = 3600\<close>; the file name is the source file name with a final
  \<^verbatim>\<open>.pdf\<close>, in any letter case, replaced by \<^verbatim>\<open>.csv\<close>. A done job without a result
  reference fails with 500 \<^verbatim>\<open>CSV_NOT_AVAILABLE\<close>, and a failure of the storage collaborator
  with 500 \<^verbatim>\<open>DOWNLOAD_URL_ERROR\<close>, both leaving the store unchanged.
\<close>

theorem download_url_view:
  "(isValidJobId jobId \<and> getJob (jobs w) jobId = Some j \<longrightarrow>
     (status j \<noteq> Done \<longrightarrow>
        downloadUrlHandler isValidJobId gen now jobId w
          = (Inl (HttpError ''Job not completed yet'' 400 ''JOB_NOT_READY''), emit (EvGetJob jobId) w)
        \<and> jobs (snd (downloadUrlHandler isValidJobId gen now jobId w)) = jobs w)
     \<and> (status j = Done \<and> \<not> truthy (r2Key j) \<longrightarrow>
        downloadUrlHandler isValidJobId gen now jobId w
          = (Inl (HttpError ''CSV file not available'' 500 ''CSV_NOT_AVAILABLE''), emit (EvGetJob jobId) w))
     \<and> (status j = Done \<and> truthy (r2Key j) \<and> gen jobId = Inl e \<longrightarrow>
        fst (downloadUrlHandler isValidJobId gen now jobId w)
          = Inl (HttpError ''Failed to generate download URL'' 500 ''DOWNLOAD_URL_ERROR'')
        \<and> jobs (snd (downloadUrlHandler isValidJobId gen now jobId w)) = jobs w)
     \<and> (status j = Done \<and> truthy (r2Key j) \<and> gen jobId = Inr url \<longrightarrow>
        fst (downloadUrlHandler isValidJobId gen now jobId w)
          = Inr \<lparr> dv_url = url, dv_filename = replaceExt [''pdf''] (filenamePdf j),
                  dv_expiresInSeconds = 3600 \<rparr>
        \<and> jobs (snd (downloadUrlHandler isValidJobId gen now jobId w))
            = updateJob (jobs w) jobId (JStr url) now
        \<and> jobs (snd (downloadUrlHandler isValidJobId gen now jobId w)) jobId
            = Some (j\<lparr> presignedUrl := JStr url, updatedAt := now \<rparr>)
        \<and> EvGenerateDownloadUrl jobId
            \<in> set (events (snd (downloadUrlHandler isValidJobId gen now jobId w)))))
   \<and> replaceExt [''pdf''] (base @ ''.pdf'') = base @ ''.csv''
   \<and> replaceExt [''pdf''] (base @ ''.PDF'') = base @ ''.csv''
   \<and> (\<not> endsWithCI name ''.pdf'' \<longrightarrow> replaceExt [''pdf''] name = name)"
proof (intro conjI impI)
  show "replaceExt [''pdf''] (base @ ''.pdf'') = base @ ''.csv''" by (rule replaceExt_pdf)
  show "replaceExt [''pdf''] (base @ ''.PDF'') = base @ ''.csv''" by (rule replaceExt_PDF)
  show "\<not> endsWithCI name ''.pdf'' \<Longrightarrow> replaceExt [''pdf''] name = name"
    by (rule replaceExt_other)
qed (simp_all add: downloadUrlHandler_def getJob_def updateJob_def emit_def Let_def)

text \<open>C7, at a done job with a result reference, at a pending job, and at a failing storage.\<close>

theorem download_url_view_witness:
  "fst (downloadUrlHandler (idOfLength 2) localDownloadUrl 9 ''j1''
          (world0\<lparr> jobs := [''j1'' \<mapsto> job0\<lparr> status := Done, r2Key := JStr ''R1'' \<rparr>] \<rparr>))
     = Inr \<lparr> dv_url = ''/api/files/download/j1'', dv_filename = ''report.csv'',
             dv_expiresInSeconds = 3600 \<rparr>
   \<and> jobs (snd (downloadUrlHandler (idOfLength 2) localDownloadUrl 9 ''j1''
          (world0\<lparr> jobs := [''j1'' \<mapsto> job0\<lparr> status := Done, r2Key := JStr ''R1'' \<rparr>] \<rparr>))) ''j1''
     = Some (job0\<lparr> status := Done, r2Key := JStr ''R1'',
                   presignedUrl := JStr ''/api/files/download/j1'', updatedAt := 9 \<rparr>)
   \<and> fst (downloadUrlHandler (idOfLength 2) localDownloadUrl 9 ''j1''
          (world0\<lparr> jobs := [''j1'' \<mapsto> job0] \<rparr>))
     = Inl (HttpError ''Job not completed yet'' 400 ''JOB_NOT_READY'')
   \<and> fst (downloadUrlHandler (idOfLength 2) storageDown 9 ''j1''
          (world0\<lparr> jobs := [''j1'' \<mapsto> job0\<lparr> status := Done, r2Key := JStr ''R1'' \<rparr>] \<rparr>))
     = Inl (HttpError ''Failed to generate download URL'' 500 ''DOWNLOAD_URL_ERROR'')"
  using download_url_view
          [of "idOfLength 2" "''j1''"
              "world0\<lparr> jobs := [''j1'' \<mapsto> job0\<lparr> status := Done, r2Key := JStr ''R1'' \<rparr>] \<rparr>"
              "job0\<lparr> status := Done, r2Key := JStr ''R1'' \<rparr>" localDownloadUrl 9
              "PlainError ''unused''" "''/api/files/download/j1''" "''report''" "''report.pdf''"]
        download_url_view
          [of "idOfLength 2" "''j1''" "world0\<lparr> jobs := [''j1'' \<mapsto> job0] \<rparr>" job0
              localDownloadUrl 9 "PlainError ''unused''" "''unused''" "''report''" "''report.txt''"]
        download_url_view
          [of "idOfLength 2" "''j1''"
              "world0\<lparr> jobs := [''j1'' \<mapsto> job0\<lparr> status := Done, r2Key := JStr ''R1'' \<rparr>] \<rparr>"
              "job0\<lparr> status := Done, r2Key := JStr ''R1'' \<rparr>" storageDown 9
              "PlainError ''storage unavailable''" "''unused''" "''report''" "''report.pdf''"]
  by (simp add: idOfLength_def getJob_def localDownloadUrl_def storageDown_def world0_def job0_def
        updateJob_def)

text \<open>
  C7 as stated fails: a done job without a result reference gets 500
  \<^verbatim>\<open>CSV_NOT_AVAILABLE\<close>; no reference is generated and nothing is persisted.
\<close>

theorem download_url_view_counterexample:
  "status (job0\<lparr> status := Done \<rparr>) = Done
   \<and> downloadUrlHandler (idOfLength 2) localDownloadUrl 9 ''j1''
        (world0\<lparr> jobs := [''j1'' \<mapsto> job0\<lparr> status := Done \<rparr>] \<rparr>)
      = (Inl (HttpError ''CSV file not available'' 500 ''CSV_NOT_AVAILABLE''),
         emit (EvGetJob ''j1'') (world0\<lparr> jobs := [''j1'' \<mapsto> job0\<lparr> status := Done \<rparr>] \<rparr>))
   \<and> jobs (snd (downloadUrlHandler (idOfLength 2) localDownloadUrl 9 ''j1''
        (world0\<lparr> jobs := [''j1'' \<mapsto> job0\<lparr> status := Done \<rparr>] \<rparr>))) ''j1''
      = Some (job0\<lparr> status := Done \<rparr>)"
  by (simp add: downloadUrlHandler_def idOfLength_def getJob_def emit_def world0_def job0_def Let_def)

text \<open>
  C5. For each of the three per-job endpoints (status, download-url, execution): a job id
  that fails \<^verbatim>\<open>isValidJobId\<close> is rejected with 400 \<^verbatim>\<open>INVALID_JOB_ID\<close> and the world is
  left as it was, so no Job Store lookup has been made; for a valid id the lookup is the
  first thing the handler does; and a 404 \<^verbatim>\<open>JOB_NOT_FOUND\<close> is only ever answered for a
  valid id that the store does not hold.
\<close>

theorem malformed_id_rejected_before_lookup:
  "(\<not> isValidJobId jobId \<longrightarrow>
      statusHandler isValidJobId jobId w
        = (Inl (HttpError ''Invalid job ID format'' 400 ''INVALID_JOB_ID''), w)
    \<and> downloadUrlHandler isValidJobId gen now jobId w
        = (Inl (HttpError ''Invalid job ID format'' 400 ''INVALID_JOB_ID''), w)
    \<and> executionHandler isValidJobId jobId w
        = (Inl (HttpError ''Invalid job ID format'' 400 ''INVALID_JOB_ID''), w))
   \<and> (isValidJobId jobId \<longrightarrow>
        events (snd (statusHandler isValidJobId jobId w)) = events w @ [EvGetJob jobId]
      \<and> take (Suc (length (events w))) (events (snd (downloadUrlHandler isValidJobId gen now jobId w)))
          = events w @ [EvGetJob jobId]
      \<and> events (snd (executionHandler isValidJobId jobId w)) = events w @ [EvGetJob jobId])
   \<and> (fst (statusHandler isValidJobId jobId w) = Inl (HttpError m 404 ''JOB_NOT_FOUND'')
        \<or> fst (downloadUrlHandler isValidJobId gen now jobId w) = Inl (HttpError m 404 ''JOB_NOT_FOUND'')
        \<or> fst (executionHandler isValidJobId jobId w) = Inl (HttpError m 404 ''JOB_NOT_FOUND'')
        \<longrightarrow> isValidJobId jobId \<and> getJob (jobs w) jobId = None)"
proof (cases "isValidJobId jobId")
  case False
  then show ?thesis
    by (simp add: statusHandler_def downloadUrlHandler_def executionHandler_def)
next
  case True
  have s: "fst (statusHandler isValidJobId jobId w) = Inl (HttpError m 404 ''JOB_NOT_FOUND'')
             \<Longrightarrow> getJob (jobs w) jobId = None"
    using True by (auto simp: statusHandler_def emit_def Let_def split: option.splits)
  have d: "fst (downloadUrlHandler isValidJobId gen now jobId w) = Inl (HttpError m 404 ''JOB_NOT_FOUND'')
             \<Longrightarrow> getJob (jobs w) jobId = None"
    using True
    by (auto simp: downloadUrlHandler_def emit_def Let_def split: option.splits if_splits sum.splits)
  have e: "fst (executionHandler isValidJobId jobId w) = Inl (HttpError m 404 ''JOB_NOT_FOUND'')
             \<Longrightarrow> getJob (jobs w) jobId = None"
    using True
    by (auto simp: executionHandler_def emit_def Let_def split: option.splits if_splits)
  have es: "events (snd (statusHandler isValidJobId jobId w)) = events w @ [EvGetJob jobId]"
    using True by (simp add: statusHandler_def emit_def Let_def split: option.splits)
  have ed: "take (Suc (length (events w))) (events (snd (downloadUrlHandler isValidJobId gen now jobId w)))
          = events w @ [EvGetJob jobId]"
    using True
    by (simp add: downloadUrlHandler_def emit_def Let_def split: option.splits sum.splits)
  have ee: "events (snd (executionHandler isValidJobId jobId w)) = events w @ [EvGetJob jobId]"
    using True by (simp add: executionHandler_def emit_def Let_def split: option.splits)
  from True s d e es ed ee show ?thesis by blast
qed

text \<open>C5, at a malformed id and at a well-formed id of no job.\<close>

theorem malformed_id_rejected_before_lookup_witness:
  "statusHandler (idOfLength 12) ''short'' world0
     = (Inl (HttpError ''Invalid job ID format'' 400 ''INVALID_JOB_ID''), world0)
   \<and> downloadUrlHandler (idOfLength 12) localDownloadUrl 7 ''short'' world0
     = (Inl (HttpError ''Invalid job ID format'' 400 ''INVALID_JOB_ID''), world0)
   \<and> executionHandler (idOfLength 12) ''short'' world0
     = (Inl (HttpError ''Invalid job ID format'' 400 ''INVALID_JOB_ID''), world0)
   \<and> statusHandler (idOfLength 12) ''job000000001'' world0
     = (Inl (HttpError ''Job not found'' 404 ''JOB_NOT_FOUND''), emit (EvGetJob ''job000000001'') world0)
   \<and> idOfLength 12 ''job000000001''"
  using malformed_id_rejected_before_lookup
          [of "idOfLength 12" "''short''" world0 localDownloadUrl 7 "''Job not found''"]
        malformed_id_rejected_before_lookup
          [of "idOfLength 12" "''job000000001''" world0 localDownloadUrl 7 "''Job not found''"]
  by (simp add: idOfLength_def statusHandler_def getJob_def emit_def world0_def)

text \<open>
  C6. For every stored job the status view returns \<^verbatim>\<open>ready\<close> equal to
  \<^verbatim>\<open>status === 'done'\<close>; it has an \<^verbatim>\<open>execution\<close> object exactly when the job carries an
  execution id (a truthy \<^verbatim>\<open>executionId\<close>, which is the only kind the upload handler
  attaches); it has \<^verbatim>\<open>downloadUrl\<close> only when the job is done and a \<^verbatim>\<open>presignedUrl\<close> is
  stored; it has \<^verbatim>\<open>error\<close> only when the job has failed and an error reason is set. The
  view changes nothing in the store.
\<close>

theorem status_view_fields:
  "isValidJobId jobId \<and> getJob (jobs w) jobId = Some j \<longrightarrow>
     (\<exists>v. fst (statusHandler isValidJobId jobId w) = Inr v
        \<and> sv_status v = status j
        \<and> sv_ready v = (status j = Done)
        \<and> (sv_execution v \<noteq> None \<longleftrightarrow> truthy (executionId j))
        \<and> (truthy (executionId j) \<longrightarrow> sv_execution v = Some (executionOf j))
        \<and> (sv_downloadUrl v \<noteq> None \<longrightarrow> status j = Done \<and> truthy (presignedUrl j)
              \<and> sv_downloadUrl v = Some (presignedUrl j))
        \<and> (sv_error v \<noteq> None \<longrightarrow> status j = Failed \<and> truthy (error j)
              \<and> sv_error v = Some (error j)))
     \<and> jobs (snd (statusHandler isValidJobId jobId w)) = jobs w"
  by (simp add: statusHandler_def emit_def Let_def)

text \<open>C6, at a done job with an execution id and a stored download URL.\<close>

theorem status_view_fields_witness:
  "fst (statusHandler (idOfLength 2) ''j1''
         (world0\<lparr> jobs := [''j1'' \<mapsto> job0\<lparr> status := Done, executionId := JStr ''E1'',
                                            presignedUrl := JStr ''/d/1'' \<rparr>] \<rparr>))
     = Inr \<lparr> sv_jobId = ''j1'', sv_status = Done, sv_ready = True, sv_filename = ''report.pdf'',
             sv_createdAt = 0, sv_updatedAt = 0,
             sv_execution = Some \<lparr> ev_id = JStr ''E1'', ev_status = JUndefined,
                                    ev_message = JUndefined, ev_mode = JUndefined,
                                    ev_webhookUrl = JUndefined \<rparr>,
             sv_downloadUrl = Some (JStr ''/d/1''), sv_error = None \<rparr>"
  using status_view_fields
          [of "idOfLength 2" "''j1''"
              "world0\<lparr> jobs := [''j1'' \<mapsto> job0\<lparr> status := Done, executionId := JStr ''E1'',
                                            presignedUrl := JStr ''/d/1'' \<rparr>] \<rparr>"
              "job0\<lparr> status := Done, executionId := JStr ''E1'', presignedUrl := JStr ''/d/1'' \<rparr>"]
  by (simp add: idOfLength_def getJob_def world0_def job0_def statusHandler_def emit_def
        executionOf_def)

section \<open>The callback limiter\<close>

text \<open>
  C9, evaluated where it fails. With \<^verbatim>\<open>CALLBACK_SECRET\<close> unset, a callback request that
  sends no \<^verbatim>\<open>x-callback-secret\<close> header is skipped by the limiter and not counted, although
  its header matches no configured secret; with a secret configured the same request is
  not skipped.
\<close>

theorem callback_unset_secret_bypass:
  "callbackSkip [] request0
   \<and> header request0 ''x-callback-secret'' = None
   \<and> env [] ''CALLBACK_SECRET'' = None
   \<and> callbackLimiter [] noHits request0 = (Passed, noHits)
   \<and> \<not> callbackSkip [(''CALLBACK_SECRET'', ''s3cret'')] request0"
  by (simp add: callbackSkip_def callbackLimiter_def header_def env_def request0_def)

text \<open>
  C10. \<^verbatim>\<open>skip(req)\<close> holds exactly when the request's \<^verbatim>\<open>x-callback-secret\<close> header
  equals the value of \<^verbatim>\<open>CALLBACK_SECRET\<close> in the environment. In particular, when the
  variable is unset, every request that omits the header is skipped: it passes the
  callback limiter and its hit is not counted.
\<close>

theorem callback_skip_iff:
  "(callbackSkip e req \<longleftrightarrow> header req ''x-callback-secret'' = env e ''CALLBACK_SECRET'')
   \<and> (env e ''CALLBACK_SECRET'' = None \<and> header req ''x-callback-secret'' = None \<longrightarrow>
        callbackSkip e req \<and> callbackLimiter e hits req = (Passed, hits))"
  by (simp add: callbackSkip_def callbackLimiter_def)

text \<open>C10, at an environment without the variable and a request without the header.\<close>

theorem callback_skip_iff_witness:
  "callbackSkip [(''NODE_ENV'', ''production'')]
     \<lparr> rq_ip = ''198.51.100.4'', rq_headers = [(''content-type'', ''application/json'')] \<rparr>
   \<and> callbackLimiter [(''NODE_ENV'', ''production'')] noHits
        \<lparr> rq_ip = ''198.51.100.4'', rq_headers = [(''content-type'', ''application/json'')] \<rparr>
      = (Passed, noHits)"
  using callback_skip_iff [of "[(''NODE_ENV'', ''production'')]"
          "\<lparr> rq_ip = ''198.51.100.4'', rq_headers = [(''content-type'', ''application/json'')] \<rparr>" noHits]
  by (simp add: env_def header_def)

end
